theory Spec2Isabelle
  imports Complex_Main
begin

section \<open>Employee allowance: lib/model/user_allowance.js\<close>

text \<open>
  The class \<^verbatim>\<open>UserAllowance\<close> computes the paid leave an employee has left in a calendar
  year. Its getters are pure reads of the object's fields; the static method
  \<^verbatim>\<open>promise_allowance\<close> gathers the fields from the employee's collaborators and builds
  the object. The development follows the file top to bottom: the library values the code
  handles (moment.js instants, JavaScript numbers), the employee record, the getters, the
  constructor with its Joi schema, and the resolver over an explicit store of moment objects.
\<close>

subsection \<open>moment.js instants in UTC\<close>

text \<open>
  A moment is an instant on the proleptic Gregorian calendar, as a JavaScript \<^verbatim>\<open>Date\<close> is.
  It is kept as its calendar year and the milliseconds elapsed since that year began, which
  is the timestamp in another coordinate system: \<open>valueOf\<close> gives the timestamp back.
  All moments are UTC ones, as \<^verbatim>\<open>moment.utc\<close> makes them.
\<close>

record moment =
  year :: int
  ms_of_year :: int

definition ms_per_day :: int where
  "ms_per_day = 86400000"

definition leap_year :: "int \<Rightarrow> bool" where
  "leap_year y =
     (if y mod 400 = 0 then True else if y mod 100 = 0 then False else y mod 4 = 0)"

definition days_in_year :: "int \<Rightarrow> int" where
  "days_in_year y = (if leap_year y then 366 else 365)"

text \<open>Days from 1 January of year 1 to 1 January of year \<open>y\<close>.\<close>

definition days_before_year :: "int \<Rightarrow> int" where
  "days_before_year y = 365 * (y - 1) + (y - 1) div 4 - (y - 1) div 100 + (y - 1) div 400"

text \<open>A moment is well formed when its offset lies inside its year.\<close>

definition valid_moment :: "moment \<Rightarrow> bool" where
  "valid_moment m = (0 \<le> ms_of_year m \<and> ms_of_year m < ms_per_day * days_in_year (year m))"

text \<open>\<^verbatim>\<open>m.valueOf()\<close>: milliseconds since 1970-01-01T00:00:00Z.\<close>

definition valueOf :: "moment \<Rightarrow> int" where
  "valueOf m = ms_per_day * (days_before_year (year m) - days_before_year 1970) + ms_of_year m"

text \<open>\<^verbatim>\<open>m.clone().startOf('year')\<close> and \<^verbatim>\<open>m.clone().endOf('year')\<close>, as values.\<close>

definition startOf_year :: "moment \<Rightarrow> moment" where
  "startOf_year m = \<lparr>year = year m, ms_of_year = 0\<rparr>"

definition endOf_year :: "moment \<Rightarrow> moment" where
  "endOf_year m = \<lparr>year = year m, ms_of_year = ms_per_day * days_in_year (year m) - 1\<rparr>"

text \<open>
  moment's \<^verbatim>\<open>absFloor\<close>: truncation towards zero, never \<open>-0\<close>. The argument is the
  quotient \<open>n / d\<close> of two integers, \<open>d\<close> positive.
\<close>

definition absFloor :: "int \<Rightarrow> int \<Rightarrow> int" where
  "absFloor n d = (if n < 0 then - ((- n) div d) else n div d)"

text \<open>\<^verbatim>\<open>a.diff(b, 'days')\<close> for two UTC moments: \<^verbatim>\<open>absFloor((a - b) / 864e5)\<close>.\<close>

definition diff_days :: "moment \<Rightarrow> moment \<Rightarrow> int" where
  "diff_days a b = absFloor (valueOf a - valueOf b) ms_per_day"

text \<open>Calendar dates at midnight UTC, for writing concrete instants.\<close>

datatype month = Jan | Feb | Mar | Apr | May | Jun | Jul | Aug | Sep | Oct | Nov | Dec

fun days_before_month :: "month \<Rightarrow> int" where
  "days_before_month Jan = 0"
| "days_before_month Feb = 31"
| "days_before_month Mar = 59"
| "days_before_month Apr = 90"
| "days_before_month May = 120"
| "days_before_month Jun = 151"
| "days_before_month Jul = 181"
| "days_before_month Aug = 212"
| "days_before_month Sep = 243"
| "days_before_month Oct = 273"
| "days_before_month Nov = 304"
| "days_before_month Dec = 334"

definition leap_shift :: "int \<Rightarrow> month \<Rightarrow> int" where
  "leap_shift y m = (if leap_year y then (if m = Jan then 0 else if m = Feb then 0 else 1) else 0)"

definition utc_date :: "int \<Rightarrow> month \<Rightarrow> int \<Rightarrow> moment" where
  "utc_date y m d =
     \<lparr>year = y, ms_of_year = ms_per_day * (days_before_month m + leap_shift y m + (d - 1))\<rparr>"

subsection \<open>JavaScript numbers\<close>

text \<open>
  A JavaScript number is a finite value, an infinity or NaN. Finite values are taken as
  exact reals: the rounding of IEEE doubles is not modelled, and \<open>-0\<close> is the same value as
  \<open>0\<close> (they are equal under \<^verbatim>\<open>===\<close>). The one place where the sign of a zero could show
  is a division by it; the only divisor of this file that can be zero is a result of
  \<^verbatim>\<open>absFloor\<close>, which is never \<open>-0\<close>, so a zero divisor is \<open>+0\<close>.
\<close>

datatype number = Fin real | PosInf | NegInf | NaN

fun js_neg :: "number \<Rightarrow> number" where
  "js_neg (Fin a) = Fin (- a)"
| "js_neg PosInf = NegInf"
| "js_neg NegInf = PosInf"
| "js_neg NaN = NaN"

fun infinity_of_sign :: "real \<Rightarrow> number" where
  "infinity_of_sign a = (if a = 0 then NaN else if 0 < a then PosInf else NegInf)"

fun js_mul :: "number \<Rightarrow> number \<Rightarrow> number" where
  "js_mul (Fin a) (Fin b) = Fin (a * b)"
| "js_mul (Fin a) PosInf = infinity_of_sign a"
| "js_mul (Fin a) NegInf = js_neg (infinity_of_sign a)"
| "js_mul PosInf (Fin b) = infinity_of_sign b"
| "js_mul NegInf (Fin b) = js_neg (infinity_of_sign b)"
| "js_mul PosInf PosInf = PosInf"
| "js_mul PosInf NegInf = NegInf"
| "js_mul NegInf PosInf = NegInf"
| "js_mul NegInf NegInf = PosInf"
| "js_mul NaN _ = NaN"
| "js_mul _ NaN = NaN"

fun js_div :: "number \<Rightarrow> number \<Rightarrow> number" where
  "js_div (Fin a) (Fin b) = (if b = 0 then infinity_of_sign a else Fin (a / b))"
| "js_div (Fin a) PosInf = Fin 0"
| "js_div (Fin a) NegInf = Fin 0"
| "js_div PosInf (Fin b) = (if 0 \<le> b then PosInf else NegInf)"
| "js_div NegInf (Fin b) = (if 0 \<le> b then NegInf else PosInf)"
| "js_div PosInf _ = NaN"
| "js_div NegInf _ = NaN"
| "js_div NaN _ = NaN"
| "js_div _ NaN = NaN"

fun js_add :: "number \<Rightarrow> number \<Rightarrow> number" where
  "js_add (Fin a) (Fin b) = Fin (a + b)"
| "js_add (Fin a) PosInf = PosInf"
| "js_add (Fin a) NegInf = NegInf"
| "js_add PosInf (Fin b) = PosInf"
| "js_add NegInf (Fin b) = NegInf"
| "js_add PosInf PosInf = PosInf"
| "js_add NegInf NegInf = NegInf"
| "js_add PosInf NegInf = NaN"
| "js_add NegInf PosInf = NaN"
| "js_add NaN _ = NaN"
| "js_add _ NaN = NaN"

text \<open>\<^verbatim>\<open>a <= b\<close> on numbers: false whenever a side is NaN.\<close>

fun js_le :: "number \<Rightarrow> number \<Rightarrow> bool" where
  "js_le (Fin a) (Fin b) = (a \<le> b)"
| "js_le NaN _ = False"
| "js_le _ NaN = False"
| "js_le NegInf _ = True"
| "js_le _ PosInf = True"
| "js_le PosInf _ = False"
| "js_le _ NegInf = False"

text \<open>\<^verbatim>\<open>Math.round\<close>: the nearest integer, a tie going up.\<close>

definition round_half_up :: "real \<Rightarrow> real" where
  "round_half_up x = of_int \<lfloor>x + 1 / 2\<rfloor>"

fun Math_round :: "number \<Rightarrow> number" where
  "Math_round (Fin a) = Fin (round_half_up a)"
| "Math_round PosInf = PosInf"
| "Math_round NegInf = NegInf"
| "Math_round NaN = NaN"

text \<open>
  \<^verbatim>\<open>x.toFixed(1)\<close> read back as a number, which is what \<^verbatim>\<open>-1 * x.toFixed(1)\<close> does with
  the string. For a finite \<open>x\<close> below \<open>10^21\<close> in magnitude the string has one digit after
  the point, the nearest such decimal with a tie going away from zero; beyond that, and for
  the infinities and NaN, the string is the number's own name and reads back as itself.
\<close>

definition toFixed1_value :: "real \<Rightarrow> real" where
  "toFixed1_value x =
     (if \<bar>x\<bar> < 10 ^ 21 then sgn x * of_int \<lfloor>\<bar>x\<bar> * 10 + 1 / 2\<rfloor> / 10 else x)"

fun toFixed1 :: "number \<Rightarrow> number" where
  "toFixed1 (Fin a) = Fin (toFixed1_value a)"
| "toFixed1 PosInf = PosInf"
| "toFixed1 NegInf = NegInf"
| "toFixed1 NaN = NaN"

subsection \<open>How a Joi schema sees a value\<close>

text \<open>
  Joi is a library; what matters here of a JavaScript value handed to one of the schemas
  of this file is the schema's verdict on it. \<open>Absent\<close> is \<^verbatim>\<open>undefined\<close> (the key is
  missing), \<open>Valid x\<close> a value the key's schema accepts, \<open>x\<close> being the value the
  validation returns for it (a number for \<^verbatim>\<open>Joi.number()\<close>, an object for
  \<^verbatim>\<open>Joi.object()\<close>, a moment for the two custom schemas), and \<open>Invalid\<close> a value the
  key's schema rejects.
\<close>

datatype 'a joi_input = Absent | Valid 'a | Invalid

subsection \<open>The employee record\<close>

text \<open>
  The fields of \<^verbatim>\<open>user\<close> the class reads. A date field holds \<open>None\<close> for \<^verbatim>\<open>null\<close>:
  \<^verbatim>\<open>moment.utc(null)\<close> is an invalid moment, whose \<^verbatim>\<open>year()\<close> is NaN and compares unequal
  to every year. The department's flag is kept as its truthiness, which is all that
  \<^verbatim>\<open>!!\<close> reads of it. The department's allowance is only handed on to the constructor,
  and is kept as the constructor's schema will see it. \<^verbatim>\<open>my_leaves\<close> is \<open>None\<close> while it
  is \<^verbatim>\<open>undefined\<close>; the leave records themselves are not read in this file.
\<close>

type_synonym leave = nat

record department =
  allowance :: "real joi_input"
  accrued_flag :: bool

record employee =
  start_date :: "moment option"
  end_date :: "moment option"
  department :: department
  my_leaves :: "leave list option"

subsection \<open>The store of moment objects\<close>

text \<open>
  Moments are mutable objects (\<^verbatim>\<open>startOf\<close> changes its receiver), and the resolver passes
  them by reference, so they live in a store. \<open>next_free\<close> is the first address no object
  has yet; allocation takes it.
\<close>

type_synonym addr = nat

record store =
  cells :: "addr \<Rightarrow> moment"
  next_free :: addr

definition alloc :: "moment \<Rightarrow> store \<Rightarrow> addr \<times> store" where
  "alloc m s = (next_free s, \<lparr>cells = (cells s)(next_free s := m), next_free = Suc (next_free s)\<rparr>)"

subsection \<open>The class and its getters\<close>

text \<open>
  The numeric fields are finite numbers: \<^verbatim>\<open>Joi.number()\<close> admits no others. The getters
  \<^verbatim>\<open>number_of_days_taken_from_allowance\<close>, \<^verbatim>\<open>manual_adjustment\<close>, \<^verbatim>\<open>carry_over\<close>,
  \<^verbatim>\<open>nominal_allowance\<close> and \<^verbatim>\<open>user\<close> return their field, and are the record's selectors.
  \<open>now_ref\<close> is the field \<^verbatim>\<open>_now\<close>, a reference to a moment object.
\<close>

record UserAllowance =
  user :: employee
  number_of_days_taken_from_allowance :: real
  manual_adjustment :: real
  carry_over :: real
  nominal_allowance :: real
  now_ref :: addr

text \<open>\<^verbatim>\<open>this._now\<close>, read. The getters clone it before they move it, so they only read.\<close>

definition this_now :: "store \<Rightarrow> UserAllowance \<Rightarrow> moment" where
  "this_now s ua = cells s (now_ref ua)"

text \<open>\<^verbatim>\<open>moment.utc(d).year() === y\<close>\<close>

definition year_is :: "moment option \<Rightarrow> int \<Rightarrow> bool" where
  "year_is d y = (case d of None \<Rightarrow> False | Some m \<Rightarrow> year m = y)"

text \<open>
  The two ends of the window of the year the employee is employed in. The source writes
  these two conditional expressions out twice, in \<^verbatim>\<open>employement_range_adjustment\<close>
  (\<^verbatim>\<open>start_date\<close>, \<^verbatim>\<open>end_date\<close>) and in \<^verbatim>\<open>accrued_adjustment\<close> (\<^verbatim>\<open>period_starts_at\<close>,
  \<^verbatim>\<open>period_ends_at\<close>).
\<close>

definition period_starts_at :: "moment \<Rightarrow> employee \<Rightarrow> moment" where
  "period_starts_at now u =
     (case start_date u of
        None \<Rightarrow> startOf_year now
      | Some sd \<Rightarrow> if year sd = year now then sd else startOf_year now)"

definition period_ends_at :: "moment \<Rightarrow> employee \<Rightarrow> moment" where
  "period_ends_at now u =
     (case end_date u of
        None \<Rightarrow> endOf_year now
      | Some ed \<Rightarrow> if year ed \<le> year now then ed else endOf_year now)"

definition employement_range_adjustment :: "store \<Rightarrow> UserAllowance \<Rightarrow> real" where
  "employement_range_adjustment s ua =
     (let now = this_now s ua in
      if \<not> year_is (start_date (user ua)) (year now)
         \<and> (case end_date (user ua) of None \<Rightarrow> True | Some ed \<Rightarrow> year now < year ed)
      then 0
      else
        let start_date' = period_starts_at now (user ua);
            end_date' = period_ends_at now (user ua)
        in - 1 * (nominal_allowance ua
                  - round_half_up (nominal_allowance ua
                                   * of_int (diff_days end_date' start_date') / 365)))"

definition total_number_of_days_in_allowance :: "store \<Rightarrow> UserAllowance \<Rightarrow> real" where
  "total_number_of_days_in_allowance s ua =
     nominal_allowance ua + carry_over ua + manual_adjustment ua
     + employement_range_adjustment s ua"

definition is_accrued_allowance :: "UserAllowance \<Rightarrow> bool" where
  "is_accrued_allowance ua = accrued_flag (department (user ua))"

text \<open>
  The locals \<^verbatim>\<open>allowance\<close> and \<^verbatim>\<open>days_in_period\<close> of \<^verbatim>\<open>accrued_adjustment\<close>, named so
  that statements about the getter can speak of them.
\<close>

definition allowance_for_period :: "store \<Rightarrow> UserAllowance \<Rightarrow> real" where
  "allowance_for_period s ua =
     nominal_allowance ua + manual_adjustment ua + employement_range_adjustment s ua"

definition days_in_period :: "store \<Rightarrow> UserAllowance \<Rightarrow> int" where
  "days_in_period s ua =
     diff_days (period_ends_at (this_now s ua) (user ua))
               (period_starts_at (this_now s ua) (user ua))"

definition accrued_adjustment :: "store \<Rightarrow> UserAllowance \<Rightarrow> number" where
  "accrued_adjustment s ua =
     (let now = this_now s ua;
          allowance' = allowance_for_period s ua;
          ends = period_ends_at now (user ua);
          delta = js_div (js_mul (Fin allowance') (Fin (of_int (diff_days ends now))))
                         (Fin (of_int (days_in_period s ua)))
      in js_mul (Fin (- 1)) (toFixed1 (js_div (Math_round (js_mul delta (Fin 2))) (Fin 2))))"

definition number_of_days_available_in_allowance :: "store \<Rightarrow> UserAllowance \<Rightarrow> number" where
  "number_of_days_available_in_allowance s ua =
     (if (case start_date (user ua) of
            None \<Rightarrow> False
          | Some sd \<Rightarrow> year (this_now s ua) < year sd)
      then Fin 0
      else js_add (Fin (total_number_of_days_in_allowance s ua
                        - number_of_days_taken_from_allowance ua))
                  (if is_accrued_allowance ua then accrued_adjustment s ua else Fin 0))"

subsection \<open>The constructor and its schema\<close>

text \<open>
  \<^verbatim>\<open>Joi.attempt\<close> throws a \<^verbatim>\<open>ValidationError\<close> whose message starts with the text it was
  given and whose details name the path of the key that failed. Validation stops at the
  first failure, the keys being visited in the order the schema lists them and the keys
  the schema does not know after them. A failure of a collaborator carries its message.
\<close>

datatype reason = Required | Rejected | Unknown_key

datatype failure =
  ValidationError string string reason
| CollaboratorError string

definition and_then :: "failure + 'a \<Rightarrow> ('a \<Rightarrow> failure + 'b) \<Rightarrow> failure + 'b" where
  "and_then r f = (case r of Inl e \<Rightarrow> Inl e | Inr x \<Rightarrow> f x)"

text \<open>A key whose schema ends in \<^verbatim>\<open>.required()\<close>.\<close>

definition required :: "string \<Rightarrow> string \<Rightarrow> 'a joi_input \<Rightarrow> failure + 'a" where
  "required msg key v =
     (case v of
        Absent \<Rightarrow> Inl (ValidationError msg key Required)
      | Invalid \<Rightarrow> Inl (ValidationError msg key Rejected)
      | Valid x \<Rightarrow> Inr x)"

text \<open>
  \<^verbatim>\<open>schema_year\<close> and \<^verbatim>\<open>schema_now\<close>: a moment, or by default a new one made by
  \<^verbatim>\<open>moment.utc()\<close>, whose reading of the clock is the argument \<open>utc\<close>.
\<close>

definition moment_or_default ::
  "string \<Rightarrow> string \<Rightarrow> moment \<Rightarrow> store \<Rightarrow> addr joi_input \<Rightarrow> failure + addr \<times> store" where
  "moment_or_default msg key utc s v =
     (case v of
        Absent \<Rightarrow> Inr (alloc utc s)
      | Invalid \<Rightarrow> Inl (ValidationError msg key Rejected)
      | Valid a \<Rightarrow> Inr (a, s))"

definition no_unknown_keys :: "string \<Rightarrow> string list \<Rightarrow> failure + unit" where
  "no_unknown_keys msg ks =
     (case ks of [] \<Rightarrow> Inr () | k # _ \<Rightarrow> Inl (ValidationError msg k Unknown_key))"

record constructor_args =
  a_user :: "employee joi_input"
  a_number_of_days_taken_from_allowance :: "real joi_input"
  a_manual_adjustment :: "real joi_input"
  a_carry_over :: "real joi_input"
  a_nominal_allowance :: "real joi_input"
  a_now :: "addr joi_input"
  a_unknown_keys :: "string list"

definition constructor_message :: string where
  "constructor_message = ''Failed parameters validation for UserAllowance constructor''"

text \<open>
  \<^verbatim>\<open>new UserAllowance(args)\<close>: the validation by \<^verbatim>\<open>scheme_constructor\<close>, then the six
  assignments. \<open>utc\<close> is what \<^verbatim>\<open>moment.utc()\<close> reads if \<^verbatim>\<open>now\<close> has to be defaulted. A
  throw is \<open>Inl\<close>, and then there is no object.
\<close>

definition UserAllowance_new ::
  "moment \<Rightarrow> store \<Rightarrow> constructor_args \<Rightarrow> failure + store \<times> UserAllowance" where
  "UserAllowance_new utc s args =
     and_then (required constructor_message ''user'' (a_user args)) (\<lambda>u.
     and_then (required constructor_message ''number_of_days_taken_from_allowance''
                 (a_number_of_days_taken_from_allowance args)) (\<lambda>taken.
     and_then (required constructor_message ''manual_adjustment''
                 (a_manual_adjustment args)) (\<lambda>adjustment.
     and_then (required constructor_message ''carry_over'' (a_carry_over args)) (\<lambda>carried.
     and_then (required constructor_message ''nominal_allowance''
                 (a_nominal_allowance args)) (\<lambda>nominal.
     and_then (moment_or_default constructor_message ''now'' utc s (a_now args)) (\<lambda>(n, s').
     and_then (no_unknown_keys constructor_message (a_unknown_keys args)) (\<lambda>_.
       Inr (s', \<lparr>user = u,
                 number_of_days_taken_from_allowance = taken,
                 manual_adjustment = adjustment,
                 carry_over = carried,
                 nominal_allowance = nominal,
                 now_ref = n\<rparr>))))))))"

text \<open>Whether a key of the argument bag holds a value its schema accepts.\<close>

definition accepted :: "'a joi_input \<Rightarrow> bool" where
  "accepted v = (case v of Valid _ \<Rightarrow> True | _ \<Rightarrow> False)"

subsection \<open>The resolver\<close>

text \<open>\<^verbatim>\<open>year.format('YYYY')\<close>: the year's digits, filled with zeros to four, after its sign.\<close>

definition digit :: "nat \<Rightarrow> char" where
  "digit n = ''0123456789'' ! (n mod 10)"

fun decimal :: "nat \<Rightarrow> string" where
  "decimal n = (if n < 10 then [digit n] else decimal (n div 10) @ [digit n])"

definition zeroFill :: "int \<Rightarrow> nat \<Rightarrow> string" where
  "zeroFill n targetLength =
     (let absNumber = decimal (nat \<bar>n\<bar>);
          zerosToFill = targetLength - length absNumber
      in (if 0 \<le> n then [] else ''-'') @ replicate zerosToFill (CHR ''0'') @ absNumber)"

definition format_YYYY :: "moment \<Rightarrow> string" where
  "format_YYYY m = zeroFill (year m) 4"

text \<open>
  The argument bag of \<^verbatim>\<open>promise_allowance\<close>, its keys in the order
  \<^verbatim>\<open>schema_promise_allowance\<close> lists them.
\<close>

record promise_allowance_args =
  p_year :: "addr joi_input"
  p_user :: "employee joi_input"
  p_now :: "addr joi_input"
  p_forceNow :: "bool joi_input"
  p_unknown_keys :: "string list"

text \<open>
  The clock is read by \<^verbatim>\<open>moment.utc()\<close> at up to four places of a call, and time passes
  between them: the defaults of \<^verbatim>\<open>year\<close> and of \<^verbatim>\<open>now\<close> when the arguments are
  validated, the comparison with the current year in the last step, and the default of
  \<^verbatim>\<open>now\<close> inside the constructor.
\<close>

record clock =
  year_default_instant :: moment
  now_default_instant :: moment
  resolve_instant :: moment
  constructor_instant :: moment

text \<open>
  The three methods of \<^verbatim>\<open>user\<close> the resolver calls are not in this file. Each takes the
  employee as it is when called; \<open>Inl\<close> is a rejection (or a throw) with its message.
  \<^verbatim>\<open>reload_with_leave_details\<close> loads the leave records into the employee object; the
  other two return what they computed, values the constructor's schema will judge.
\<close>

record collaborators =
  reload_with_leave_details :: "employee \<Rightarrow> moment \<Rightarrow> string + employee"
  promise_adjustment_and_carry_over_for_year ::
    "employee \<Rightarrow> moment \<Rightarrow> string + real joi_input \<times> real joi_input"
  calculate_number_of_days_taken_from_allowance ::
    "employee \<Rightarrow> string \<Rightarrow> string + real joi_input"

datatype call =
  Reload_with_leave_details moment
| Promise_adjustment_and_carry_over_for_year moment
| Calculate_number_of_days_taken_from_allowance string

text \<open>
  A failed validation of the arguments is thrown before any promise exists; every later
  failure rejects the promise returned.
\<close>

datatype 'a outcome = Throws failure | Rejects failure | Resolves 'a

record resolution =
  calls :: "call list"
  final_store :: store
  result :: "UserAllowance outcome"

record validated_args =
  v_year :: addr
  v_user :: employee
  v_now :: addr
  v_forceNow :: bool

definition promise_message :: string where
  "promise_message = ''Failed to validate parameters for promise_allowance''"

definition schema_promise_allowance ::
  "clock \<Rightarrow> store \<Rightarrow> promise_allowance_args \<Rightarrow> failure + store \<times> validated_args" where
  "schema_promise_allowance clk s args =
     and_then (moment_or_default promise_message ''year'' (year_default_instant clk) s
                 (p_year args)) (\<lambda>(y, s1).
     and_then (required promise_message ''user'' (p_user args)) (\<lambda>u.
     and_then (moment_or_default promise_message ''now'' (now_default_instant clk) s1
                 (p_now args)) (\<lambda>(n, s2).
     and_then (case p_forceNow args of
                 Absent \<Rightarrow> Inr False
               | Invalid \<Rightarrow> Inl (ValidationError promise_message ''forceNow'' Rejected)
               | Valid b \<Rightarrow> Inr b) (\<lambda>force.
     and_then (no_unknown_keys promise_message (p_unknown_keys args)) (\<lambda>_.
       Inr (s2, \<lparr>v_year = y, v_user = u, v_now = n, v_forceNow = force\<rparr>))))))"

text \<open>
  The last step of the flow: the choice of \<^verbatim>\<open>args.now\<close>, then the constructor.
  \<^verbatim>\<open>now\<close> and \<^verbatim>\<open>year\<close> are objects after the validation, hence truthy, so
  \<^verbatim>\<open>forceNow && now\<close> is \<^verbatim>\<open>forceNow\<close> and \<^verbatim>\<open>year && ...\<close> is its right side.
  \<^verbatim>\<open>year.startOf('year')\<close> changes the object \<^verbatim>\<open>year\<close> refers to and returns it.
\<close>

definition choose_now ::
  "clock \<Rightarrow> store \<Rightarrow> validated_args \<Rightarrow> addr joi_input \<times> store" where
  "choose_now clk s v =
     (if v_forceNow v then (Valid (v_now v), s)
      else if year (cells s (v_year v)) \<noteq> year (resolve_instant clk)
      then (Valid (v_year v),
            s\<lparr>cells := (cells s)(v_year v := startOf_year (cells s (v_year v)))\<rparr>)
      else (Absent, s))"

definition build ::
  "clock \<Rightarrow> store \<Rightarrow> validated_args \<Rightarrow> employee \<Rightarrow> real joi_input \<Rightarrow> real joi_input
     \<Rightarrow> real joi_input \<Rightarrow> store \<times> UserAllowance outcome" where
  "build clk s v u adjustment carried_over_allowance taken =
     (let (now', s') = choose_now clk s v;
          args = \<lparr>a_user = Valid u,
                  a_number_of_days_taken_from_allowance = taken,
                  a_manual_adjustment = adjustment,
                  a_carry_over = carried_over_allowance,
                  a_nominal_allowance = allowance (department u),
                  a_now = now',
                  a_unknown_keys = []\<rparr>
      in case UserAllowance_new (constructor_instant clk) s' args of
           Inl e \<Rightarrow> (s', Rejects e)
         | Inr (s'', ua) \<Rightarrow> (s'', Resolves ua))"

text \<open>
  \<^verbatim>\<open>promise_allowance(args)\<close>, run to the settling of the promise it returns. \<open>calls\<close> lists
  the calls made to the collaborators, in order.
\<close>

definition promise_allowance ::
  "clock \<Rightarrow> collaborators \<Rightarrow> store \<Rightarrow> promise_allowance_args \<Rightarrow> resolution" where
  "promise_allowance clk col s0 args =
     (case schema_promise_allowance clk s0 args of
        Inl e \<Rightarrow> \<lparr>calls = [], final_store = s0, result = Throws e\<rparr>
      | Inr (s, v) \<Rightarrow>
          let user' = v_user v;
              year' = cells s (v_year v);
              reloads = (if my_leaves user' = None then [Reload_with_leave_details year'] else [])
          in
          (case (if my_leaves user' = None then reload_with_leave_details col user' year'
                 else Inr user') of
            Inl m \<Rightarrow> \<lparr>calls = reloads, final_store = s, result = Rejects (CollaboratorError m)\<rparr>
          | Inr u \<Rightarrow>
              (case promise_adjustment_and_carry_over_for_year col u year' of
                 Inl m \<Rightarrow>
                   \<lparr>calls = reloads @ [Promise_adjustment_and_carry_over_for_year year'],
                    final_store = s, result = Rejects (CollaboratorError m)\<rparr>
               | Inr (adjustment, carried_over_allowance) \<Rightarrow>
                   (case calculate_number_of_days_taken_from_allowance col u (format_YYYY year') of
                      Inl m \<Rightarrow>
                        \<lparr>calls = reloads @ [Promise_adjustment_and_carry_over_for_year year',
                                  Calculate_number_of_days_taken_from_allowance (format_YYYY year')],
                         final_store = s, result = Rejects (CollaboratorError m)\<rparr>
                    | Inr taken \<Rightarrow>
                        (let (s', r) = build clk s v u adjustment carried_over_allowance taken
                         in \<lparr>calls = reloads @ [Promise_adjustment_and_carry_over_for_year year',
                                  Calculate_number_of_days_taken_from_allowance (format_YYYY year')],
                             final_store = s', result = r\<rparr>)))))"

text \<open>Whether the flow got as far as its last step, where the constructor is called.\<close>

definition reached_constructor :: "UserAllowance outcome \<Rightarrow> bool" where
  "reached_constructor r =
     (case r of
        Resolves _ \<Rightarrow> True
      | Rejects (ValidationError _ _ _) \<Rightarrow> True
      | Rejects (CollaboratorError _) \<Rightarrow> False
      | Throws _ \<Rightarrow> False)"


text \<open>
  What a key of the argument bag refers to once validated: the object supplied, as it was
  when the call began, or else the default.
\<close>

definition supplied_or :: "moment \<Rightarrow> store \<Rightarrow> addr joi_input \<Rightarrow> moment" where
  "supplied_or utc s v = (case v of Valid a \<Rightarrow> cells s a | Absent \<Rightarrow> utc | Invalid \<Rightarrow> utc)"

text \<open>The supplied objects exist: their addresses are below the first free one.\<close>

definition allocated :: "store \<Rightarrow> addr joi_input \<Rightarrow> bool" where
  "allocated s v = (case v of Valid a \<Rightarrow> a < next_free s | Absent \<Rightarrow> True | Invalid \<Rightarrow> True)"

text \<open>What the validation reports of a key that holds no acceptable value.\<close>

definition fails_with :: "'a joi_input \<Rightarrow> reason \<Rightarrow> bool" where
  "fails_with v why =
     (case v of Absent \<Rightarrow> why = Required | Invalid \<Rightarrow> why = Rejected | Valid _ \<Rightarrow> False)"

subsection \<open>Sample snapshots\<close>

text \<open>Concrete employees, objects and stores, for evaluating the getters.\<close>

definition employee_of :: "moment option \<Rightarrow> moment option \<Rightarrow> bool \<Rightarrow> employee" where
  "employee_of sd ed accrued =
     \<lparr>start_date = sd, end_date = ed,
      department = \<lparr>allowance = Valid 28, accrued_flag = accrued\<rparr>,
      my_leaves = None\<rparr>"

definition snapshot :: "employee \<Rightarrow> real \<Rightarrow> real \<Rightarrow> real \<Rightarrow> real \<Rightarrow> UserAllowance" where
  "snapshot u nominal adjustment carried taken =
     \<lparr>user = u, number_of_days_taken_from_allowance = taken, manual_adjustment = adjustment,
      carry_over = carried, nominal_allowance = nominal, now_ref = 0\<rparr>"

definition store_at :: "moment \<Rightarrow> store" where
  "store_at m = \<lparr>cells = (\<lambda>_. m), next_free = 1\<rparr>"

text \<open>
  A clock that reads 3 March 2016 throughout, except that the default of \<^verbatim>\<open>now\<close> is read
  a day earlier and the constructor reads a day later; collaborators that load no leaves,
  report no adjustment and no carry-over, and count three days taken.
\<close>

definition sample_clock :: clock where
  "sample_clock =
     \<lparr>year_default_instant = utc_date 2016 Mar 3, now_default_instant = utc_date 2016 Mar 2,
      resolve_instant = utc_date 2016 Mar 3, constructor_instant = utc_date 2016 Mar 4\<rparr>"

definition sample_collaborators :: collaborators where
  "sample_collaborators =
     \<lparr>reload_with_leave_details = (\<lambda>u y. Inr (u\<lparr>my_leaves := Some []\<rparr>)),
      promise_adjustment_and_carry_over_for_year = (\<lambda>u y. Inr (Valid 0, Valid 0)),
      calculate_number_of_days_taken_from_allowance = (\<lambda>u y. Inr (Valid 3))\<rparr>"

definition sample_args ::
  "employee \<Rightarrow> addr joi_input \<Rightarrow> addr joi_input \<Rightarrow> bool joi_input \<Rightarrow> promise_allowance_args" where
  "sample_args u y n force =
     \<lparr>p_year = y, p_user = Valid u, p_now = n, p_forceNow = force, p_unknown_keys = []\<rparr>"

definition sample_employee :: employee where
  "sample_employee = employee_of (Some (utc_date 2010 Mar 1)) None False"

definition sample_constructor_args :: "real joi_input \<Rightarrow> constructor_args" where
  "sample_constructor_args carried =
     \<lparr>a_user = Valid sample_employee,
      a_number_of_days_taken_from_allowance = Valid 3,
      a_manual_adjustment = Valid 0,
      a_carry_over = carried,
      a_nominal_allowance = Valid 28,
      a_now = Absent,
      a_unknown_keys = []\<rparr>"

text \<open>
  Four objects: an employee who starts and leaves on 15 June 2016, a long-standing employee
  of an accruing department with an allowance of 20, the same with an allowance of 10 and a
  manual adjustment of \<open>-20\<close>, and a long-standing employee of a department that does not
  accrue. Three calls of the resolver: for 2015 with \<^verbatim>\<open>forceNow\<close> and no \<^verbatim>\<open>now\<close>, for 2015
  with neither, and for 2016 with the leaves already loaded.
\<close>

definition one_day_snapshot :: UserAllowance where
  "one_day_snapshot =
     snapshot (employee_of (Some (utc_date 2016 Jun 15)) (Some (utc_date 2016 Jun 15)) True) 20 0 0 0"

definition overdrawn_snapshot :: UserAllowance where
  "overdrawn_snapshot =
     snapshot (employee_of (Some (utc_date 2010 Mar 1)) None True) 10 (- 20) 0 0"

definition accruing_snapshot :: UserAllowance where
  "accruing_snapshot =
     snapshot (employee_of (Some (utc_date 2010 Mar 1)) None True) 20 0 0 0"

definition plain_snapshot :: UserAllowance where
  "plain_snapshot =
     snapshot (employee_of (Some (utc_date 2010 Mar 1)) None False) 28 0 0 3"

definition forced_run :: resolution where
  "forced_run =
     promise_allowance sample_clock sample_collaborators (store_at (utc_date 2015 Jun 1))
       (sample_args sample_employee (Valid 0) Absent (Valid True))"

definition past_year_run :: resolution where
  "past_year_run =
     promise_allowance sample_clock sample_collaborators (store_at (utc_date 2015 Jun 1))
       (sample_args sample_employee (Valid 0) Absent Absent)"


section \<open>Properties of the getters\<close>

subsection \<open>Day counts and rounding\<close>

lemmas calendar_defs =
  utc_date_def endOf_year_def startOf_year_def absFloor_def ms_per_day_def days_in_year_def
  leap_year_def leap_shift_def

text \<open>
  The coordinates agree with the timestamp: the instant after the last millisecond of a
  year is the start of the next year, and the origin is 1 January 1970.
\<close>

lemma valid_ends_of_year: "valid_moment (startOf_year m)" "valid_moment (endOf_year m)"
  by (simp_all add: valid_moment_def startOf_year_def endOf_year_def ms_per_day_def
      days_in_year_def)

lemma div_step:
  fixes y d :: int
  assumes "0 < d"
  shows "y div d = (y - 1) div d + (if y mod d = 0 then 1 else 0)"
proof -
  define q where "q = (y - 1) div d"
  define r where "r = (y - 1) mod d"
  have y: "y = d * q + r + 1" and r: "0 \<le> r" "r < d"
    using assms by (simp_all add: q_def r_def)
  show ?thesis
  proof (cases "r + 1 = d")
    case True
    with y have "y = d * (q + 1) + 0" by (simp add: algebra_simps)
    then have "y div d = q + 1" and "y mod d = 0"
      using assms by (simp_all only: int_div_pos_eq int_mod_pos_eq)
    then show ?thesis by (simp add: q_def)
  next
    case False
    with r have "0 \<le> r + 1" "r + 1 < d" by simp_all
    moreover from y have "y = d * q + (r + 1)" by simp
    ultimately have "y div d = q" and "y mod d = r + 1"
      by (simp_all only: int_div_pos_eq int_mod_pos_eq)
    with r show ?thesis by (simp add: q_def)
  qed
qed

lemma mod_chain:
  fixes y :: int
  shows "y mod 400 = 0 \<Longrightarrow> y mod 100 = 0" and "y mod 100 = 0 \<Longrightarrow> y mod 4 = 0"
  using mod_mod_cancel [of 100 400 y] mod_mod_cancel [of 4 100 y] by simp_all

lemma days_before_next_year:
  "days_before_year (y + 1) = days_before_year y + days_in_year y"
proof -
  define A B C where "A = y div 4" and "B = y div 100" and "C = y div 400"
  define A' B' C' where "A' = (y - 1) div 4" and "B' = (y - 1) div 100"
    and "C' = (y - 1) div 400"
  define P4 P100 P400 where "P4 \<longleftrightarrow> y mod 4 = 0" and "P100 \<longleftrightarrow> y mod 100 = 0"
    and "P400 \<longleftrightarrow> y mod 400 = 0"
  have a: "A = A' + (if P4 then 1 else 0)"
    unfolding A_def A'_def P4_def by (rule div_step) simp
  have b: "B = B' + (if P100 then 1 else 0)"
    unfolding B_def B'_def P100_def by (rule div_step) simp
  have c: "C = C' + (if P400 then 1 else 0)"
    unfolding C_def C'_def P400_def by (rule div_step) simp
  have m: "P400 \<Longrightarrow> P100" "P100 \<Longrightarrow> P4"
    unfolding P400_def P100_def P4_def by (fact mod_chain)+
  have y: "y + 1 - 1 = y" by simp
  have n: "days_before_year (y + 1) = 365 * y + A - B + C"
    unfolding days_before_year_def y A_def B_def C_def ..
  have o: "days_before_year y = 365 * (y - 1) + A' - B' + C'"
    unfolding days_before_year_def A'_def B'_def C'_def ..
  have d: "days_in_year y = (if P400 then 366 else if P100 then 365 else if P4 then 366 else 365)"
    unfolding days_in_year_def leap_year_def P400_def P100_def P4_def by simp
  show ?thesis
    unfolding n o d a b c using m by (cases P400; cases P100; cases P4) simp_all
qed

lemma valueOf_endOf_year:
  "valueOf (endOf_year m) + 1 = valueOf (startOf_year (m\<lparr>year := year m + 1\<rparr>))"
  by (simp add: valueOf_def endOf_year_def startOf_year_def days_before_next_year
      right_diff_distrib distrib_left)

lemma valueOf_epoch: "valueOf (utc_date 1970 Jan 1) = 0" "valueOf (utc_date 2016 Jul 1) = 1467331200000"
  by (simp_all add: valueOf_def calendar_defs days_before_year_def)

lemma valueOf_same_year:
  "year a = year b \<Longrightarrow> valueOf a - valueOf b = ms_of_year a - ms_of_year b"
  by (simp add: valueOf_def)

lemma diff_days_same_year:
  "year a = year b \<Longrightarrow> diff_days a b = absFloor (ms_of_year a - ms_of_year b) ms_per_day"
  by (simp add: diff_days_def valueOf_same_year)

lemma diff_days_self: "diff_days a a = 0"
  by (simp add: diff_days_def absFloor_def)

lemma absFloor_mono:
  assumes "0 < d" and "n \<le> m"
  shows "absFloor n d \<le> absFloor m d"
proof (cases "n < 0")
  case True
  note n = this
  show ?thesis
  proof (cases "m < 0")
    case True
    from assms have "(- m) div d \<le> (- n) div d"
      by (intro zdiv_mono1) simp_all
    with n True show ?thesis by (simp add: absFloor_def)
  next
    case False
    from n assms have "0 \<le> (- n) div d" by (simp add: pos_imp_zdiv_nonneg_iff)
    moreover from False assms have "0 \<le> m div d" by (simp add: pos_imp_zdiv_nonneg_iff)
    ultimately show ?thesis using n False by (simp add: absFloor_def)
  qed
next
  case False
  with assms have "n div d \<le> m div d" by (intro zdiv_mono1) simp_all
  with False assms show ?thesis by (simp add: absFloor_def)
qed

lemma diff_days_antimono:
  assumes "valueOf n1 \<le> valueOf n2"
  shows "diff_days e n2 \<le> diff_days e n1"
  unfolding diff_days_def using assms by (intro absFloor_mono) (simp_all add: ms_per_day_def)

lemma floor_add_half: "\<lfloor>(of_int n :: real) + 1 / 2\<rfloor> = n"
  by linarith

lemma toFixed1_value_half: "toFixed1_value (of_int k / 2) = of_int k / 2"
proof -
  have "\<bar>(of_int k :: real) / 2\<bar> * 10 + 1 / 2 = of_int (5 * \<bar>k\<bar>) + 1 / 2"
    by simp
  then have "\<lfloor>\<bar>(of_int k :: real) / 2\<bar> * 10 + 1 / 2\<rfloor> = 5 * \<bar>k\<bar>"
    using floor_add_half [of "5 * \<bar>k\<bar>"] by simp
  then show ?thesis
    by (simp add: toFixed1_value_def sgn_if abs_if)
qed

lemma round_half_up_mono: "x \<le> y \<Longrightarrow> round_half_up x \<le> round_half_up y"
  by (simp add: round_half_up_def floor_mono)

lemma accrued_adjustment_finite:
  assumes "days_in_period s ua \<noteq> 0"
  shows "accrued_adjustment s ua =
     Fin (- (round_half_up
               (allowance_for_period s ua
                  * of_int (diff_days (period_ends_at (this_now s ua) (user ua)) (this_now s ua))
                  / of_int (days_in_period s ua) * 2) / 2))"
  using assms
  by (simp add: accrued_adjustment_def Let_def round_half_up_def toFixed1_value_half)

lemma accrued_adjustment_not_finite:
  assumes "days_in_period s ua = 0"
  shows "accrued_adjustment s ua = js_neg (infinity_of_sign (allowance_for_period s ua
                  * of_int (diff_days (period_ends_at (this_now s ua) (user ua)) (this_now s ua))))"
  using assms
  by (simp add: accrued_adjustment_def Let_def)

lemma period_starts_at_year:
  "year n1 = year n2 \<Longrightarrow> period_starts_at n1 u = period_starts_at n2 u"
  by (simp add: period_starts_at_def startOf_year_def split: option.splits)

lemma period_ends_at_year:
  "year n1 = year n2 \<Longrightarrow> period_ends_at n1 u = period_ends_at n2 u"
  by (simp add: period_ends_at_def endOf_year_def split: option.splits)

lemma employement_range_adjustment_year:
  assumes "year (this_now s1 ua) = year (this_now s2 ua)"
  shows "employement_range_adjustment s1 ua = employement_range_adjustment s2 ua"
proof -
  note ps = period_starts_at_year [OF assms, of "user ua"]
  note pe = period_ends_at_year [OF assms, of "user ua"]
  show ?thesis
    by (cases "end_date (user ua)")
      (simp_all add: employement_range_adjustment_def Let_def ps pe assms)
qed

lemma allowance_for_period_year:
  assumes "year (this_now s1 ua) = year (this_now s2 ua)"
  shows "allowance_for_period s1 ua = allowance_for_period s2 ua"
  by (simp add: allowance_for_period_def employement_range_adjustment_year [OF assms])

lemma days_in_period_year:
  assumes "year (this_now s1 ua) = year (this_now s2 ua)"
  shows "days_in_period s1 ua = days_in_period s2 ua"
  by (simp add: days_in_period_def period_starts_at_year [OF assms, of "user ua"]
      period_ends_at_year [OF assms, of "user ua"])

lemmas sample_defs = employee_of_def snapshot_def store_at_def this_now_def

lemma half_year_days: "diff_days (endOf_year (utc_date y Dec 31)) (utc_date y Jul 1) = 183"
  by (simp add: diff_days_same_year endOf_year_def utc_date_def absFloor_def ms_per_day_def
      days_in_year_def leap_shift_def)

lemma round_half_of_28: "round_half_up (28 * 183 / 365) = 14"
  by (simp add: round_half_up_def)

subsection \<open>The employee has not started yet\<close>

text \<open>
  C2. Whenever the year of the employee's start date is strictly after the year of the
  snapshot's \<^verbatim>\<open>now\<close>, \<^verbatim>\<open>number_of_days_available_in_allowance\<close> is 0.
\<close>

theorem available_zero_before_start_year:
  assumes "start_date (user ua) = Some sd"
    and "year (this_now s ua) < year sd"
  shows "number_of_days_available_in_allowance s ua = Fin 0"
  using assms by (simp add: number_of_days_available_in_allowance_def)

theorem available_zero_before_start_year_witness:
  "start_date (user (snapshot (employee_of (Some (utc_date 2017 Mar 1)) None False) 28 0 0 3))
     = Some (utc_date 2017 Mar 1)
   \<and> year (this_now (store_at (utc_date 2016 Jun 1))
             (snapshot (employee_of (Some (utc_date 2017 Mar 1)) None False) 28 0 0 3))
       < year (utc_date 2017 Mar 1)
   \<and> number_of_days_available_in_allowance (store_at (utc_date 2016 Jun 1))
        (snapshot (employee_of (Some (utc_date 2017 Mar 1)) None False) 28 0 0 3) = Fin 0"
  using available_zero_before_start_year
    [of "snapshot (employee_of (Some (utc_date 2017 Mar 1)) None False) 28 0 0 3"
        "utc_date 2017 Mar 1" "store_at (utc_date 2016 Jun 1)"]
  by (simp add: sample_defs utc_date_def)

subsection \<open>Employment over the whole year\<close>

text \<open>
  C5. Whenever the start date's year differs from the year of \<^verbatim>\<open>now\<close>, and the end date is
  absent or its year is strictly after the year of \<^verbatim>\<open>now\<close>,
  \<^verbatim>\<open>employement_range_adjustment\<close> is 0.
\<close>

theorem no_range_adjustment_for_full_year:
  assumes "start_date (user ua) = Some sd"
    and "year sd \<noteq> year (this_now s ua)"
    and "case end_date (user ua) of None \<Rightarrow> True | Some ed \<Rightarrow> year (this_now s ua) < year ed"
  shows "employement_range_adjustment s ua = 0"
  using assms by (simp add: employement_range_adjustment_def year_is_def Let_def)

theorem no_range_adjustment_for_full_year_witness:
  "start_date (user (snapshot (employee_of (Some (utc_date 2010 Mar 1))
                                (Some (utc_date 2018 Feb 1)) False) 28 0 0 3))
     = Some (utc_date 2010 Mar 1)
   \<and> year (utc_date 2010 Mar 1)
       \<noteq> year (this_now (store_at (utc_date 2016 Jun 1))
                 (snapshot (employee_of (Some (utc_date 2010 Mar 1))
                              (Some (utc_date 2018 Feb 1)) False) 28 0 0 3))
   \<and> employement_range_adjustment (store_at (utc_date 2016 Jun 1))
        (snapshot (employee_of (Some (utc_date 2010 Mar 1))
                     (Some (utc_date 2018 Feb 1)) False) 28 0 0 3) = 0"
  using no_range_adjustment_for_full_year
    [of "snapshot (employee_of (Some (utc_date 2010 Mar 1))
                     (Some (utc_date 2018 Feb 1)) False) 28 0 0 3"
        "utc_date 2010 Mar 1" "store_at (utc_date 2016 Jun 1)"]
  by (simp add: sample_defs utc_date_def)

text \<open>
  C6. The total is the sum of the nominal allowance, the carry-over, the manual adjustment
  and the employment range adjustment. For an employee who started before the year of
  \<^verbatim>\<open>now\<close> and has no end date in it or before it, with no carry-over and no manual
  adjustment, in a department that does not accrue, the days available are the nominal
  allowance minus the days taken.
\<close>

theorem available_for_full_year:
  "total_number_of_days_in_allowance s ua
     = nominal_allowance ua + carry_over ua + manual_adjustment ua
       + employement_range_adjustment s ua
   \<and> (start_date (user ua) = Some sd \<and> year sd < year (this_now s ua)
        \<and> (case end_date (user ua) of None \<Rightarrow> True | Some ed \<Rightarrow> year (this_now s ua) < year ed)
        \<and> carry_over ua = 0 \<and> manual_adjustment ua = 0 \<and> \<not> is_accrued_allowance ua
      \<longrightarrow> number_of_days_available_in_allowance s ua
            = Fin (nominal_allowance ua - number_of_days_taken_from_allowance ua))"
  by (simp add: total_number_of_days_in_allowance_def number_of_days_available_in_allowance_def
      employement_range_adjustment_def year_is_def Let_def)

theorem available_for_full_year_witness:
  "start_date (user plain_snapshot)
     = Some (utc_date 2010 Mar 1)
   \<and> year (utc_date 2010 Mar 1)
       < year (this_now (store_at (utc_date 2016 Jun 1))
                plain_snapshot)
   \<and> \<not> is_accrued_allowance plain_snapshot
   \<and> number_of_days_available_in_allowance (store_at (utc_date 2016 Jun 1))
        plain_snapshot = Fin 25"
  unfolding plain_snapshot_def
  using available_for_full_year
    [of "store_at (utc_date 2016 Jun 1)"
        "snapshot (employee_of (Some (utc_date 2010 Mar 1)) None False) 28 0 0 3"
        "utc_date 2010 Mar 1"]
  by (simp add: sample_defs utc_date_def is_accrued_allowance_def)

subsection \<open>Employment from the middle of the year\<close>

text \<open>
  C4. With a nominal allowance of 28, a start date of 1 July of the year of \<^verbatim>\<open>now\<close>, no end
  date and \<^verbatim>\<open>now\<close> on 31 December of that year, the window runs from 1 July to the last
  millisecond of the year, 183 whole days, and \<^verbatim>\<open>employement_range_adjustment\<close> is
  \<open>-(28 - round(28 * 183 / 365))\<close>, which is exactly \<open>-14\<close>, in every year.
\<close>

theorem mid_year_range_adjustment:
  assumes "nominal_allowance ua = 28"
    and "start_date (user ua) = Some (utc_date y Jul 1)"
    and "end_date (user ua) = None"
    and "this_now s ua = utc_date y Dec 31"
  shows "employement_range_adjustment s ua = - 14
    \<and> diff_days (period_ends_at (this_now s ua) (user ua))
                 (period_starts_at (this_now s ua) (user ua)) = 183
    \<and> employement_range_adjustment s ua
        = - (nominal_allowance ua - round_half_up (nominal_allowance ua * 183 / 365))"
proof -
  have y: "year (utc_date y Jul 1) = year (utc_date y Dec 31)"
    by (simp add: utc_date_def)
  have e: "period_ends_at (this_now s ua) (user ua) = endOf_year (utc_date y Dec 31)"
    using assms by (simp add: period_ends_at_def)
  have b: "period_starts_at (this_now s ua) (user ua) = utc_date y Jul 1"
    using assms y by (simp add: period_starts_at_def)
  have d: "diff_days (period_ends_at (this_now s ua) (user ua))
             (period_starts_at (this_now s ua) (user ua)) = 183"
    by (simp add: e b half_year_days)
  have "year_is (start_date (user ua)) (year (this_now s ua))"
    using assms y by (simp add: year_is_def)
  then have f: "employement_range_adjustment s ua
      = - (nominal_allowance ua - round_half_up (nominal_allowance ua * 183 / 365))"
    using d by (simp add: employement_range_adjustment_def Let_def)
  have "employement_range_adjustment s ua = - 14"
    unfolding f assms(1) round_half_of_28 by simp
  with d f show ?thesis by simp
qed

theorem mid_year_range_adjustment_witness:
  "nominal_allowance (snapshot (employee_of (Some (utc_date 2016 Jul 1)) None False) 28 0 0 3) = 28
   \<and> end_date (user (snapshot (employee_of (Some (utc_date 2016 Jul 1)) None False) 28 0 0 3)) = None
   \<and> this_now (store_at (utc_date 2016 Dec 31))
       (snapshot (employee_of (Some (utc_date 2016 Jul 1)) None False) 28 0 0 3)
       = utc_date 2016 Dec 31
   \<and> employement_range_adjustment (store_at (utc_date 2016 Dec 31))
       (snapshot (employee_of (Some (utc_date 2016 Jul 1)) None False) 28 0 0 3) = - 14"
  using mid_year_range_adjustment
    [of "snapshot (employee_of (Some (utc_date 2016 Jul 1)) None False) 28 0 0 3" 2016
        "store_at (utc_date 2016 Dec 31)"]
  by (simp add: sample_defs)

subsection \<open>The accrual adjustment\<close>

lemmas getter_defs =
  days_in_period_def allowance_for_period_def employement_range_adjustment_def year_is_def
  period_ends_at_def period_starts_at_def Let_def

lemma whole_year_2016:
  "diff_days (endOf_year (utc_date 2016 m d)) (startOf_year (utc_date 2016 m d)) = 365"
  by (simp add: diff_days_same_year calendar_defs)

lemma full_year_sample:
  "days_in_period (store_at (utc_date 2016 m d))
       (snapshot (employee_of (Some (utc_date 2010 Mar 1)) None True) n a c t) = 365"
  "allowance_for_period (store_at (utc_date 2016 m d))
       (snapshot (employee_of (Some (utc_date 2010 Mar 1)) None True) n a c t) = n + a"
  "period_ends_at (this_now (store_at (utc_date 2016 m d))
       (snapshot (employee_of (Some (utc_date 2010 Mar 1)) None True) n a c t))
     (user (snapshot (employee_of (Some (utc_date 2010 Mar 1)) None True) n a c t))
    = endOf_year (utc_date 2016 m d)"
    by (simp_all add: getter_defs sample_defs whole_year_2016) (simp_all add: utc_date_def)

lemma remaining_days_2016:
  "diff_days (endOf_year (utc_date 2016 Jan 1)) (utc_date 2016 Jan 1) = 365"
  "diff_days (endOf_year (utc_date 2016 Jul 1)) (utc_date 2016 Jul 1) = 183"
  by (simp_all add: diff_days_same_year calendar_defs)

lemma accrued_samples:
  "accrued_adjustment (store_at (utc_date 2016 Jan 1))
     (snapshot (employee_of (Some (utc_date 2010 Mar 1)) None True) 10 (- 20) 0 0) = Fin 10"
  "accrued_adjustment (store_at (utc_date 2016 Jul 1))
     (snapshot (employee_of (Some (utc_date 2010 Mar 1)) None True) 10 (- 20) 0 0) = Fin 5"
  "accrued_adjustment (store_at (utc_date 2016 Jan 1))
     (snapshot (employee_of (Some (utc_date 2010 Mar 1)) None True) 20 0 0 0) = Fin (- 20)"
  "accrued_adjustment (store_at (utc_date 2016 Jul 1))
     (snapshot (employee_of (Some (utc_date 2010 Mar 1)) None True) 20 0 0 0) = Fin (- 10)"
  by (simp_all add: accrued_adjustment_finite full_year_sample)
     (simp_all add: sample_defs remaining_days_2016 round_half_up_def)

text \<open>
  C1. The claim asks that a period of zero days give one documented fallback value. The
  getter has no such case: an employee who starts and leaves on 15 June 2016, with a
  nominal allowance of 20 in an accruing department, has a period of 0 days on 1 June 2016,
  the division is \<open>0 / 0\<close>, and both the adjustment and the days available are NaN.
\<close>

theorem zero_span_accrued_adjustment_is_NaN:
  "days_in_period (store_at (utc_date 2016 Jun 1))
     one_day_snapshot = 0
   \<and> accrued_adjustment (store_at (utc_date 2016 Jun 1))
       one_day_snapshot = NaN
   \<and> number_of_days_available_in_allowance (store_at (utc_date 2016 Jun 1))
       one_day_snapshot = NaN"
proof -
  let ?s = "store_at (utc_date 2016 Jun 1)"
  let ?ua = "snapshot (employee_of (Some (utc_date 2016 Jun 15)) (Some (utc_date 2016 Jun 15)) True)
        20 0 0 0"
  have d: "days_in_period ?s ?ua = 0"
    by (simp add: getter_defs sample_defs utc_date_def diff_days_self)
  have a: "allowance_for_period ?s ?ua = 0"
    by (simp add: getter_defs sample_defs utc_date_def diff_days_self round_half_up_def)
  have n: "accrued_adjustment ?s ?ua = NaN"
    by (simp add: accrued_adjustment_not_finite [OF d] a)
  have "number_of_days_available_in_allowance ?s ?ua = NaN"
    by (simp add: number_of_days_available_in_allowance_def n is_accrued_allowance_def)
      (simp add: sample_defs utc_date_def)
  with d n show ?thesis
    unfolding one_day_snapshot_def by simp
qed

text \<open>
  C3, as the code has it. When the period is not of zero days, \<^verbatim>\<open>accrued_adjustment\<close> is 0
  for a \<^verbatim>\<open>now\<close> that is the end of the period. For two values of \<^verbatim>\<open>now\<close> in the same
  year, the earlier one first, with a period not of zero days and an allowance for the
  period that has the sign of the period's day count (or is 0), the adjustment of the
  earlier \<^verbatim>\<open>now\<close> is less than or equal to that of the later one.
\<close>

theorem accrued_adjustment_end_and_monotone:
  "(days_in_period s ua \<noteq> 0 \<and> this_now s ua = period_ends_at (this_now s ua) (user ua)
      \<longrightarrow> accrued_adjustment s ua = Fin 0)
   \<and> (year (this_now s1 ua) = year (this_now s2 ua)
       \<and> valueOf (this_now s1 ua) \<le> valueOf (this_now s2 ua)
       \<and> days_in_period s1 ua \<noteq> 0
       \<and> 0 \<le> allowance_for_period s1 ua * of_int (days_in_period s1 ua)
      \<longrightarrow> js_le (accrued_adjustment s1 ua) (accrued_adjustment s2 ua))"
proof (intro conjI impI)
  assume h: "days_in_period s ua \<noteq> 0 \<and> this_now s ua = period_ends_at (this_now s ua) (user ua)"
  then have "diff_days (period_ends_at (this_now s ua) (user ua)) (this_now s ua) = 0"
    using diff_days_self [of "this_now s ua"] by simp
  with h show "accrued_adjustment s ua = Fin 0"
    by (simp add: accrued_adjustment_finite round_half_up_def)
next
  assume h: "year (this_now s1 ua) = year (this_now s2 ua)
       \<and> valueOf (this_now s1 ua) \<le> valueOf (this_now s2 ua)
       \<and> days_in_period s1 ua \<noteq> 0
       \<and> 0 \<le> allowance_for_period s1 ua * of_int (days_in_period s1 ua)"
  then have yr: "year (this_now s1 ua) = year (this_now s2 ua)"
    and le: "valueOf (this_now s1 ua) \<le> valueOf (this_now s2 ua)"
    and d1: "days_in_period s1 ua \<noteq> 0"
    and sg: "0 \<le> allowance_for_period s1 ua * of_int (days_in_period s1 ua)"
    by simp_all
  define a where "a = allowance_for_period s1 ua"
  define d where "d = days_in_period s1 ua"
  define e where "e = period_ends_at (this_now s1 ua) (user ua)"
  define r1 where "r1 = diff_days e (this_now s1 ua)"
  define r2 where "r2 = diff_days e (this_now s2 ua)"
  have a2: "allowance_for_period s2 ua = a"
    by (simp add: a_def allowance_for_period_year [OF yr])
  have d2: "days_in_period s2 ua = d"
    by (simp add: d_def days_in_period_year [OF yr])
  have e2: "period_ends_at (this_now s2 ua) (user ua) = e"
    by (simp add: e_def period_ends_at_year [OF yr, of "user ua"])
  have r: "r2 \<le> r1"
    unfolding r1_def r2_def by (rule diff_days_antimono [OF le])
  have q: "0 \<le> a / of_int d"
    using sg d1 unfolding a_def d_def by (simp add: zero_le_divide_iff zero_le_mult_iff)
  have "a / of_int d * of_int r2 \<le> a / of_int d * of_int r1"
    using q r by (intro mult_left_mono) simp_all
  then have "a * of_int r2 / of_int d \<le> a * of_int r1 / of_int d"
    by simp
  then have "a * of_int r2 / of_int d * 2 \<le> a * of_int r1 / of_int d * 2"
    by (rule mult_right_mono) simp
  then have m: "round_half_up (a * of_int r2 / of_int d * 2)
      \<le> round_half_up (a * of_int r1 / of_int d * 2)"
    by (rule round_half_up_mono)
  have f1: "accrued_adjustment s1 ua = Fin (- (round_half_up (a * of_int r1 / of_int d * 2) / 2))"
    using accrued_adjustment_finite [of s1 ua] d1 by (simp add: a_def d_def e_def r1_def)
  have f2: "accrued_adjustment s2 ua = Fin (- (round_half_up (a * of_int r2 / of_int d * 2) / 2))"
    using accrued_adjustment_finite [of s2 ua] d1 d2 a2 e2 by (simp add: d_def r2_def)
  show "js_le (accrued_adjustment s1 ua) (accrued_adjustment s2 ua)"
    using m by (simp add: f1 f2)
qed


theorem accrued_adjustment_end_and_monotone_witness:
  "days_in_period (store_at (endOf_year (utc_date 2016 Jul 1)))
      accruing_snapshot \<noteq> 0
   \<and> accrued_adjustment (store_at (endOf_year (utc_date 2016 Jul 1)))
      accruing_snapshot = Fin 0
   \<and> valueOf (utc_date 2016 Jan 1) \<le> valueOf (utc_date 2016 Jul 1)
   \<and> 0 \<le> allowance_for_period (store_at (utc_date 2016 Jan 1))
            accruing_snapshot
          * of_int (days_in_period (store_at (utc_date 2016 Jan 1))
              accruing_snapshot)
   \<and> js_le (accrued_adjustment (store_at (utc_date 2016 Jan 1))
              accruing_snapshot)
            (accrued_adjustment (store_at (utc_date 2016 Jul 1))
              accruing_snapshot)"
proof -
  let ?ua = "snapshot (employee_of (Some (utc_date 2010 Mar 1)) None True) 20 0 0 0"
  let ?s = "store_at (endOf_year (utc_date 2016 Jul 1))"
  let ?s1 = "store_at (utc_date 2016 Jan 1)"
  let ?s2 = "store_at (utc_date 2016 Jul 1)"
  have d: "days_in_period ?s ?ua = 365"
    by (simp add: getter_defs sample_defs diff_days_same_year calendar_defs)
  have e: "this_now ?s ?ua = period_ends_at (this_now ?s ?ua) (user ?ua)"
    by (simp add: getter_defs sample_defs calendar_defs)
  have y: "year (this_now ?s1 ?ua) = year (this_now ?s2 ?ua)"
    by (simp add: sample_defs utc_date_def)
  have v: "valueOf (this_now ?s1 ?ua) \<le> valueOf (this_now ?s2 ?ua)"
    by (simp add: sample_defs valueOf_def calendar_defs)
  have v': "valueOf (utc_date 2016 Jan 1) \<le> valueOf (utc_date 2016 Jul 1)"
    by (simp add: valueOf_def calendar_defs)
  show ?thesis
    unfolding accruing_snapshot_def
    using accrued_adjustment_end_and_monotone [of ?s ?ua ?s1 ?s2] d e y v v'
    by (simp add: full_year_sample)
qed

text \<open>
  The claim as it is written fails twice. An employee who starts and leaves on 15 June 2016
  has, on that day, a \<^verbatim>\<open>now\<close> equal to the end of the period and an adjustment that is
  NaN, not 0. And with a nominal allowance of 10 and a manual adjustment of \<open>-20\<close> the
  adjustment is 10 on 1 January 2016 and 5 on 1 July 2016: it falls as \<^verbatim>\<open>now\<close> moves on.
\<close>

theorem accrued_adjustment_counterexample:
  "(is_accrued_allowance
      one_day_snapshot
    \<and> this_now (store_at (utc_date 2016 Jun 15))
        one_day_snapshot
      = period_ends_at
          (this_now (store_at (utc_date 2016 Jun 15))
            one_day_snapshot)
          (user one_day_snapshot)
    \<and> accrued_adjustment (store_at (utc_date 2016 Jun 15))
        one_day_snapshot \<noteq> Fin 0)
   \<and> (is_accrued_allowance overdrawn_snapshot
    \<and> year (this_now (store_at (utc_date 2016 Jan 1))
              overdrawn_snapshot)
      = year (this_now (store_at (utc_date 2016 Jul 1))
              overdrawn_snapshot)
    \<and> valueOf (this_now (store_at (utc_date 2016 Jan 1))
              overdrawn_snapshot)
      \<le> valueOf (this_now (store_at (utc_date 2016 Jul 1))
              overdrawn_snapshot)
    \<and> \<not> js_le (accrued_adjustment (store_at (utc_date 2016 Jan 1))
                 overdrawn_snapshot)
               (accrued_adjustment (store_at (utc_date 2016 Jul 1))
                 overdrawn_snapshot))"
proof -
  let ?z = "snapshot (employee_of (Some (utc_date 2016 Jun 15)) (Some (utc_date 2016 Jun 15)) True)
         20 0 0 0"
  let ?s = "store_at (utc_date 2016 Jun 15)"
  have d: "days_in_period ?s ?z = 0"
    by (simp add: getter_defs sample_defs utc_date_def diff_days_self)
  have a: "allowance_for_period ?s ?z = 0"
    by (simp add: getter_defs sample_defs utc_date_def diff_days_self round_half_up_def)
  have n: "accrued_adjustment ?s ?z = NaN"
    by (simp add: accrued_adjustment_not_finite [OF d] a)
  have e: "this_now ?s ?z = period_ends_at (this_now ?s ?z) (user ?z)"
    by (simp add: period_ends_at_def sample_defs utc_date_def)
  have first: "is_accrued_allowance ?z \<and> this_now ?s ?z = period_ends_at (this_now ?s ?z) (user ?z)
      \<and> accrued_adjustment ?s ?z \<noteq> Fin 0"
    using e by (simp add: n is_accrued_allowance_def) (simp add: sample_defs)
  let ?w = "snapshot (employee_of (Some (utc_date 2010 Mar 1)) None True) 10 (- 20) 0 0"
  have y: "year (this_now (store_at (utc_date 2016 Jan 1)) ?w)
      = year (this_now (store_at (utc_date 2016 Jul 1)) ?w)"
    by (simp add: sample_defs utc_date_def)
  have v: "valueOf (this_now (store_at (utc_date 2016 Jan 1)) ?w)
      \<le> valueOf (this_now (store_at (utc_date 2016 Jul 1)) ?w)"
    by (simp add: sample_defs valueOf_def calendar_defs)
  have f: "is_accrued_allowance ?w"
    by (simp add: is_accrued_allowance_def sample_defs)
  have "\<not> js_le (accrued_adjustment (store_at (utc_date 2016 Jan 1)) ?w)
               (accrued_adjustment (store_at (utc_date 2016 Jul 1)) ?w)"
    by (simp add: accrued_samples)
  with first y v f show ?thesis
    unfolding one_day_snapshot_def overdrawn_snapshot_def by blast
qed

section \<open>Properties of the constructor\<close>

lemma required_not_accepted:
  "\<not> accepted v \<Longrightarrow> \<exists>why. fails_with v why \<and> required msg key v = Inl (ValidationError msg key why)"
  by (cases v) (simp_all add: accepted_def fails_with_def required_def)

lemma required_accepted:
  "accepted v \<Longrightarrow> \<exists>x. v = Valid x \<and> required msg key v = Inr x"
  by (cases v) (simp_all add: accepted_def required_def)

text \<open>
  C9. When \<^verbatim>\<open>user\<close> or one of the four numeric fields is missing or holds a value its
  schema rejects, the constructor throws: the result is a \<^verbatim>\<open>ValidationError\<close> that carries
  the constructor's message and the name of a key that is indeed at fault, with the reason
  (missing, or rejected), and no object is made.
\<close>

theorem constructor_rejects_bad_arguments:
  assumes "\<not> accepted (a_user args)
     \<or> \<not> accepted (a_number_of_days_taken_from_allowance args)
     \<or> \<not> accepted (a_manual_adjustment args)
     \<or> \<not> accepted (a_carry_over args)
     \<or> \<not> accepted (a_nominal_allowance args)"
  shows "\<exists>key why.
      UserAllowance_new utc s args = Inl (ValidationError constructor_message key why)
      \<and> (key = ''user'' \<and> fails_with (a_user args) why
         \<or> key = ''number_of_days_taken_from_allowance''
             \<and> fails_with (a_number_of_days_taken_from_allowance args) why
         \<or> key = ''manual_adjustment'' \<and> fails_with (a_manual_adjustment args) why
         \<or> key = ''carry_over'' \<and> fails_with (a_carry_over args) why
         \<or> key = ''nominal_allowance'' \<and> fails_with (a_nominal_allowance args) why)"
proof (cases "accepted (a_user args)")
  case False
  from required_not_accepted [OF this, of constructor_message "''user''"]
  show ?thesis by (auto simp: UserAllowance_new_def and_then_def)
next
  case u: True
  from required_accepted [OF u, of constructor_message "''user''"]
  obtain x1 where x1: "required constructor_message ''user'' (a_user args) = Inr x1" by blast
  show ?thesis
  proof (cases "accepted (a_number_of_days_taken_from_allowance args)")
    case False
    from required_not_accepted [OF this, of constructor_message "''number_of_days_taken_from_allowance''"]
    show ?thesis using x1 by (auto simp: UserAllowance_new_def and_then_def)
  next
    case t: True
    from required_accepted [OF t, of constructor_message "''number_of_days_taken_from_allowance''"]
    obtain x2 where x2: "required constructor_message ''number_of_days_taken_from_allowance''
        (a_number_of_days_taken_from_allowance args) = Inr x2" by blast
    show ?thesis
    proof (cases "accepted (a_manual_adjustment args)")
      case False
      from required_not_accepted [OF this, of constructor_message "''manual_adjustment''"]
      show ?thesis using x1 x2 by (auto simp: UserAllowance_new_def and_then_def)
    next
      case m: True
      from required_accepted [OF m, of constructor_message "''manual_adjustment''"]
      obtain x3 where x3: "required constructor_message ''manual_adjustment''
        (a_manual_adjustment args) = Inr x3" by blast
      show ?thesis
      proof (cases "accepted (a_carry_over args)")
        case False
        from required_not_accepted [OF this, of constructor_message "''carry_over''"]
        show ?thesis using x1 x2 x3 by (auto simp: UserAllowance_new_def and_then_def)
      next
        case c: True
        from required_accepted [OF c, of constructor_message "''carry_over''"]
        obtain x4 where x4: "required constructor_message ''carry_over''
          (a_carry_over args) = Inr x4" by blast
        from u t m c assms have "\<not> accepted (a_nominal_allowance args)" by blast
        from required_not_accepted [OF this, of constructor_message "''nominal_allowance''"]
        show ?thesis using x1 x2 x3 x4 by (auto simp: UserAllowance_new_def and_then_def)
      qed
    qed
  qed
qed

theorem constructor_rejects_bad_arguments_witness:
  "\<not> accepted (a_carry_over (sample_constructor_args Absent))
   \<and> UserAllowance_new (utc_date 2016 Mar 3) (store_at (utc_date 2016 Mar 3))
        (sample_constructor_args Absent)
      = Inl (ValidationError constructor_message ''carry_over'' Required)"
proof -
  let ?args = "sample_constructor_args Absent"
  have n: "\<not> accepted (a_carry_over ?args)"
    by (simp add: sample_constructor_args_def accepted_def)
  have f: "fails_with (a_user ?args) why = False"
    "fails_with (a_number_of_days_taken_from_allowance ?args) why = False"
    "fails_with (a_manual_adjustment ?args) why = False"
    "fails_with (a_nominal_allowance ?args) why = False"
    "fails_with (a_carry_over ?args) why = (why = Required)" for why
    by (simp_all add: sample_constructor_args_def fails_with_def)
  have "\<exists>key why.
      UserAllowance_new (utc_date 2016 Mar 3) (store_at (utc_date 2016 Mar 3)) ?args
        = Inl (ValidationError constructor_message key why)
      \<and> (key = ''user'' \<and> fails_with (a_user ?args) why
         \<or> key = ''number_of_days_taken_from_allowance''
             \<and> fails_with (a_number_of_days_taken_from_allowance ?args) why
         \<or> key = ''manual_adjustment'' \<and> fails_with (a_manual_adjustment ?args) why
         \<or> key = ''carry_over'' \<and> fails_with (a_carry_over ?args) why
         \<or> key = ''nominal_allowance'' \<and> fails_with (a_nominal_allowance ?args) why)"
    by (rule constructor_rejects_bad_arguments) (simp add: n)
  then have "\<exists>key why.
      UserAllowance_new (utc_date 2016 Mar 3) (store_at (utc_date 2016 Mar 3)) ?args
        = Inl (ValidationError constructor_message key why)
      \<and> key = ''carry_over'' \<and> why = Required"
    by (simp add: f)
  with n show ?thesis by simp
qed

section \<open>Properties of the resolver\<close>

subsection \<open>Validation, the flow and its last step\<close>

lemmas schema_defs = schema_promise_allowance_def and_then_def required_def moment_or_default_def
  no_unknown_keys_def alloc_def

lemma schema_ok:
  assumes "schema_promise_allowance clk s0 args = Inr (s, v)"
    and "allocated s0 (p_year args)" and "allocated s0 (p_now args)"
  shows "cells s (v_year v) = supplied_or (year_default_instant clk) s0 (p_year args)"
    and "cells s (v_now v) = supplied_or (now_default_instant clk) s0 (p_now args)"
    and "v_forceNow v = (p_forceNow args = Valid True)"
    and "p_year args = Valid a \<Longrightarrow> v_year v = a"
    and "p_now args = Valid b \<Longrightarrow> v_now v = b"
    and "v_year v < next_free s" and "v_now v < next_free s"
    and "p_year args = Valid a \<Longrightarrow> cells s a = cells s0 a"
  using assms
  by (auto simp: schema_defs supplied_or_def allocated_def split: joi_input.splits list.splits)


lemma schema_fails:
  assumes "schema_promise_allowance clk s0 args = Inl e"
  shows "promise_allowance clk col s0 args = \<lparr>calls = [], final_store = s0, result = Throws e\<rparr>"
  using assms by (simp add: promise_allowance_def)

lemma UserAllowance_new_store:
  assumes "UserAllowance_new utc s args = Inr (s', ua)"
  shows "a_now args = Valid a \<Longrightarrow> s' = s \<and> now_ref ua = a"
    and "a_now args = Absent \<Longrightarrow> now_ref ua = next_free s \<and> cells s' (next_free s) = utc
          \<and> (\<forall>b. b \<noteq> next_free s \<longrightarrow> cells s' b = cells s b)"
  using assms
  by (auto simp: UserAllowance_new_def and_then_def required_def moment_or_default_def
      no_unknown_keys_def alloc_def split: joi_input.splits list.splits)

lemma build_now:
  assumes "build clk s v u adj coa taken = (s', Resolves ua)"
  shows "this_now s' ua =
      (if v_forceNow v then cells s (v_now v)
       else if year (cells s (v_year v)) \<noteq> year (resolve_instant clk)
       then startOf_year (cells s (v_year v))
       else constructor_instant clk)"
    and "v_forceNow v \<Longrightarrow> now_ref ua = v_now v"
    and "\<not> v_forceNow v \<Longrightarrow> year (cells s (v_year v)) \<noteq> year (resolve_instant clk)
          \<Longrightarrow> now_ref ua = v_year v"
  using assms
  by (auto simp: build_def choose_now_def this_now_def Let_def
      dest: UserAllowance_new_store split: if_splits sum.splits prod.splits)


lemma flow_reached:
  assumes "schema_promise_allowance clk s0 args = Inr (s, v)"
    and "reached_constructor (result (promise_allowance clk col s0 args))"
  shows "\<exists>u adj coa taken.
      build clk s v u adj coa taken
        = (final_store (promise_allowance clk col s0 args),
           result (promise_allowance clk col s0 args))"
  using assms
  by (auto simp: promise_allowance_def Let_def reached_constructor_def
      split: sum.splits prod.splits if_splits)



lemma not_thrown:
  assumes "reached_constructor (result (promise_allowance clk col s0 args))"
  shows "\<exists>s v. schema_promise_allowance clk s0 args = Inr (s, v)"
proof (cases "schema_promise_allowance clk s0 args")
  case (Inl e)
  with assms show ?thesis by (simp add: schema_fails reached_constructor_def)
next
  case (Inr p)
  then show ?thesis by (cases p) simp
qed





lemmas run_defs =
  promise_allowance_def schema_defs build_def choose_now_def UserAllowance_new_def
  sample_clock_def sample_collaborators_def sample_args_def sample_employee_def
  employee_of_def store_at_def Let_def

lemma year_of_date: "year (utc_date y m d) = y"
  by (simp add: utc_date_def)

lemma run_past_year:
  "result (promise_allowance sample_clock sample_collaborators (store_at (utc_date 2015 Jun 1))
            (sample_args sample_employee (Valid 0) Absent Absent))
     = Resolves \<lparr>user = sample_employee\<lparr>my_leaves := Some []\<rparr>,
                 number_of_days_taken_from_allowance = 3, manual_adjustment = 0,
                 carry_over = 0, nominal_allowance = 28, now_ref = 0\<rparr>"
  by (simp add: run_defs year_of_date)

lemma run_forced_default:
  "result (promise_allowance sample_clock sample_collaborators (store_at (utc_date 2015 Jun 1))
            (sample_args sample_employee (Valid 0) Absent (Valid True)))
     = Resolves \<lparr>user = sample_employee\<lparr>my_leaves := Some []\<rparr>,
                 number_of_days_taken_from_allowance = 3, manual_adjustment = 0,
                 carry_over = 0, nominal_allowance = 28, now_ref = 1\<rparr>"
  "cells (final_store (promise_allowance sample_clock sample_collaborators
            (store_at (utc_date 2015 Jun 1))
            (sample_args sample_employee (Valid 0) Absent (Valid True)))) 1
     = utc_date 2016 Mar 2"
  by (simp_all add: run_defs year_of_date)



subsection \<open>The reload step\<close>



subsection \<open>The evaluation instant\<close>

text \<open>
  C7, as the code has it. In the object a call resolves to, \<^verbatim>\<open>now\<close> is: if \<^verbatim>\<open>forceNow\<close>
  is true, the validated \<^verbatim>\<open>now\<close>, which is the object supplied (the very same one) or,
  when none was supplied, the instant the schema's default read; otherwise, if the year of
  \<^verbatim>\<open>year\<close> differs from the current year, the start of that year; otherwise the instant
  the constructor's default reads. The supplied objects are taken to exist in the store.
\<close>

theorem resolved_evaluation_instant:
  assumes "result (promise_allowance clk col s0 args) = Resolves ua"
    and "allocated s0 (p_year args)" and "allocated s0 (p_now args)"
  shows "this_now (final_store (promise_allowance clk col s0 args)) ua =
      (if p_forceNow args = Valid True
       then supplied_or (now_default_instant clk) s0 (p_now args)
       else if year (supplied_or (year_default_instant clk) s0 (p_year args))
               \<noteq> year (resolve_instant clk)
       then startOf_year (supplied_or (year_default_instant clk) s0 (p_year args))
       else constructor_instant clk)
    \<and> (p_forceNow args = Valid True \<and> p_now args = Valid a \<longrightarrow> now_ref ua = a)"
proof -
  have "reached_constructor (result (promise_allowance clk col s0 args))"
    using assms(1) by (simp add: reached_constructor_def)
  from not_thrown [OF this] obtain s v
    where sv: "schema_promise_allowance clk s0 args = Inr (s, v)" by blast
  from flow_reached [OF sv \<open>reached_constructor _\<close>] assms(1)
  obtain u adj coa taken
    where b: "build clk s v u adj coa taken
        = (final_store (promise_allowance clk col s0 args), Resolves ua)"
    by auto
  note ok = schema_ok [OF sv assms(2) assms(3)]
  show ?thesis
    using build_now [OF b] ok(1,2,3) ok(5) [of a] by auto
qed

theorem resolved_evaluation_instant_witness:
  "allocated (store_at (utc_date 2015 Jun 1)) (p_year (sample_args sample_employee (Valid 0) Absent Absent))
   \<and> allocated (store_at (utc_date 2015 Jun 1)) (p_now (sample_args sample_employee (Valid 0) Absent Absent))
   \<and> this_now
        (final_store past_year_run)
        \<lparr>user = sample_employee\<lparr>my_leaves := Some []\<rparr>,
         number_of_days_taken_from_allowance = 3, manual_adjustment = 0,
         carry_over = 0, nominal_allowance = 28, now_ref = 0\<rparr>
      = startOf_year (utc_date 2015 Jun 1)"
proof -
  have a: "allocated (store_at (utc_date 2015 Jun 1))
             (p_year (sample_args sample_employee (Valid 0) Absent Absent))"
    and b: "allocated (store_at (utc_date 2015 Jun 1))
             (p_now (sample_args sample_employee (Valid 0) Absent Absent))"
    by (simp_all add: allocated_def sample_args_def store_at_def)
  have f: "p_forceNow (sample_args sample_employee (Valid 0) Absent Absent) \<noteq> Valid True"
    by (simp add: sample_args_def)
  have y: "supplied_or (year_default_instant sample_clock) (store_at (utc_date 2015 Jun 1))
             (p_year (sample_args sample_employee (Valid 0) Absent Absent)) = utc_date 2015 Jun 1"
    by (simp add: supplied_or_def sample_args_def store_at_def)
  have d: "year (utc_date 2015 Jun 1) \<noteq> year (resolve_instant sample_clock)"
    by (simp add: sample_clock_def year_of_date)
  show ?thesis
    unfolding past_year_run_def
    using resolved_evaluation_instant [OF run_past_year a b, of 0] a b f d
    unfolding y by simp
qed

text \<open>
  The claim as it is written lets \<^verbatim>\<open>forceNow\<close> count only when \<^verbatim>\<open>now\<close> was supplied. A
  call for 2015 made in 2016 with \<^verbatim>\<open>forceNow\<close> true and no \<^verbatim>\<open>now\<close> would then evaluate at
  the start of 2015; the code evaluates it at the instant the default of \<^verbatim>\<open>now\<close> read,
  2 March 2016.
\<close>

theorem forced_now_counterexample:
  "\<not> (p_forceNow (sample_args sample_employee (Valid 0) Absent (Valid True)) = Valid True
       \<and> accepted (p_now (sample_args sample_employee (Valid 0) Absent (Valid True))))
   \<and> year (supplied_or (year_default_instant sample_clock) (store_at (utc_date 2015 Jun 1))
             (p_year (sample_args sample_employee (Valid 0) Absent (Valid True))))
      \<noteq> year (resolve_instant sample_clock)
   \<and> result forced_run
      = Resolves \<lparr>user = sample_employee\<lparr>my_leaves := Some []\<rparr>,
                  number_of_days_taken_from_allowance = 3, manual_adjustment = 0,
                  carry_over = 0, nominal_allowance = 28, now_ref = 1\<rparr>
   \<and> this_now
        (final_store forced_run)
        \<lparr>user = sample_employee\<lparr>my_leaves := Some []\<rparr>,
         number_of_days_taken_from_allowance = 3, manual_adjustment = 0,
         carry_over = 0, nominal_allowance = 28, now_ref = 1\<rparr>
      = utc_date 2016 Mar 2
   \<and> utc_date 2016 Mar 2
      \<noteq> startOf_year (supplied_or (year_default_instant sample_clock)
                        (store_at (utc_date 2015 Jun 1))
                        (p_year (sample_args sample_employee (Valid 0) Absent (Valid True))))"
proof -
  let ?args = "sample_args sample_employee (Valid 0) Absent (Valid True)"
  let ?s0 = "store_at (utc_date 2015 Jun 1)"
  have 1: "\<not> (p_forceNow ?args = Valid True \<and> accepted (p_now ?args))"
    by (simp add: sample_args_def accepted_def)
  have y: "supplied_or (year_default_instant sample_clock) ?s0 (p_year ?args)
      = utc_date 2015 Jun 1"
    by (simp add: supplied_or_def sample_args_def store_at_def)
  have 2: "year (utc_date 2015 Jun 1) \<noteq> year (resolve_instant sample_clock)"
    by (simp add: sample_clock_def year_of_date)
  have 4: "this_now
        (final_store (promise_allowance sample_clock sample_collaborators ?s0 ?args))
        \<lparr>user = sample_employee\<lparr>my_leaves := Some []\<rparr>,
         number_of_days_taken_from_allowance = 3, manual_adjustment = 0,
         carry_over = 0, nominal_allowance = 28, now_ref = 1\<rparr>
      = utc_date 2016 Mar 2"
    unfolding this_now_def using run_forced_default(2) by simp
  have 5: "utc_date 2016 Mar 2 \<noteq> startOf_year (utc_date 2015 Jun 1)"
    by (simp add: utc_date_def startOf_year_def)
  show ?thesis
    unfolding forced_run_def
    unfolding y using 1 2 run_forced_default(1) 4 5 by blast
qed

subsection \<open>The year argument is changed in place\<close>



end
